theory Spec2Isabelle
  imports Complex_Main
begin

section \<open>The SFTP file transfer application (fs2.py)\<close>

text \<open>
  A shallow embedding of the methods of \<open>FileSharingApp\<close> that own state: the
  transfer history with its JSON file, the progress display and the transfer routine
  \<open>_transfer_file\<close>. Widgets are kept only as far as a method reads or writes them.
  Calls into Tk, paramiko and the file system are effects: each one is appended to a
  trace in the order the source performs it, and what the outside world answers is taken
  from an environment record. The library functions whose results the methods compute
  with (\<open>json.dump\<close>, \<open>json.load\<close>, and \<open>int\<close> inside Tk's tree view) are
  parameters of the model.
\<close>

subsection \<open>Data\<close>

text \<open>Exceptions the modelled calls can raise.\<close>

datatype py_error =
    ZeroDivisionError
  | AttributeError
  | OSError
  | JSONDecodeError
  | SSHException
  | AuthenticationException
  | FileNotFoundError

text \<open>
  How a block of statements ends: it runs to its end, it executes \<open>return\<close>, or it
  raises.
\<close>

datatype flow = Continue | Return | Raise py_error

text \<open>
  A history entry is the dict built in \<open>add_to_history\<close>, with the four keys
  \<open>"date"\<close>, \<open>"type"\<close>, \<open>"file"\<close> and \<open>"status"\<close>.
\<close>

record history_entry =
  entry_date :: string
  entry_type :: string
  entry_file :: string
  entry_status :: string

text \<open>
  What \<open>json.load\<close> can return, and what \<open>json.dump\<close> is given. A float stands
  with its exact value; infinities and NaN have no constructor.
\<close>

datatype json =
    JNull
  | JBool bool
  | JInt int
  | JFloat rat
  | JString string
  | JArray "json list"
  | JObject "(string \<times> json) list"

text \<open>
  The library: \<open>json_dump v\<close> is the text that
  \<open>json.dump(v, f, ensure_ascii=False, indent=2)\<close> writes, \<open>json_load t\<close> is what
  \<open>json.load\<close> does on an opened file of content \<open>t\<close>, and \<open>str_int t\<close> is
  \<open>int(t)\<close> on a string, \<open>None\<close> where it raises \<open>ValueError\<close>.
\<close>

record library =
  json_dump :: "json \<Rightarrow> string"
  json_load :: "string \<Rightarrow> py_error + json"
  str_int :: "string \<Rightarrow> int option"

text \<open>
  The file \<open>transfer_history.json\<close> as the file system holds it: its content, if it
  exists, and what opening it for reading and for writing raises, if anything.
\<close>

record history_store =
  content :: "string option"
  read_error :: "py_error option"
  write_error :: "py_error option"

text \<open>A row of the history tree: the four values \<open>update_history_display\<close> inserts.\<close>

type_synonym item_values = "string \<times> string \<times> string \<times> string"

text \<open>
  A value read back from the tree. \<open>Treeview.item\<close> passes every value through
  \<open>_convert_stringval\<close>, which returns an \<open>int\<close> where \<open>int\<close> accepts the text.
\<close>

datatype tk_value = TkStr string | TkInt int

datatype action = Upload | Download

datatype status_msg =
    Connecting
  | Uploaded string
  | Saved string
  | Stopped
  | Blank

datatype dialog =
    SelectEntryWarning
  | FillAllDetails
  | ChooseUploadFile
  | EnterRemoteName
  | TransferFailed action py_error

text \<open>The effects, in the vocabulary of the calls the source makes.\<close>

datatype event =
    ShowWarning dialog
  | ShowError dialog
  | ShowInfo action string
  | Status status_msg
  | TransportOpen string
  | TransportConnect string string
  | SftpOpen
  | GetSize string
  | AskSaveAs string
  | SftpStat string
  | SftpPut string string
  | SftpGet string string
  | Progress int int
  | SftpClose
  | TransportClose
  | HistoryAppend history_entry
  | HistoryFlush
  | Uncaught py_error

record app =
  server_entry :: string
  username_entry :: string
  password_entry :: string
  remote_file_entry :: string
  file_path :: "string option"
  transfer_history :: "history_entry list"
  history_file :: history_store
  history_tree :: "item_values list"
  progress_bar :: rat
  progress_label :: "(int \<times> int) option"
  local_files :: "string list"
  trace :: "event list"

text \<open>
  What the collaborators answer during one attempt: the clock, the three steps that
  open a session, \<open>os.path.getsize\<close>, the save dialog, \<open>sftp.stat\<close>, and for
  \<open>sftp.put\<close> and \<open>sftp.get\<close> the samples the library passes to the callback
  followed by the call's outcome. \<open>None\<close> means the call returned.
\<close>

record env =
  now :: string
  transport_result :: "py_error option"
  connect_result :: "py_error option"
  sftp_result :: "py_error option"
  getsize_result :: "py_error + int"
  put_samples :: "(int \<times> int) list"
  put_result :: "py_error option"
  save_path :: string
  stat_result :: "py_error + int"
  get_samples :: "(int \<times> int) list"
  get_result :: "py_error option"

definition emit :: "event \<Rightarrow> app \<Rightarrow> app" where
  "emit ev s = s\<lparr>trace := trace s @ [ev]\<rparr>"

text \<open>The events a step added to the trace.\<close>

definition new_events :: "app \<Rightarrow> app \<Rightarrow> event list" where
  "new_events s s' = drop (length (trace s)) (trace s')"

subsection \<open>History store\<close>

text \<open>
  The labels of the type and status columns, as the UTF-8 bytes of the source's literals.
\<close>

definition label_success :: string where
  "label_success =
     [CHR 0xD9, CHR 0x85, CHR 0xD9, CHR 0x88, CHR 0xD9, CHR 0x81, CHR 0xD9, CHR 0x82]"

definition label_failed :: string where
  "label_failed =
     [CHR 0xD9, CHR 0x86, CHR 0xD8, CHR 0xA7, CHR 0xD9, CHR 0x85, CHR 0xD9, CHR 0x88,
      CHR 0xD9, CHR 0x81, CHR 0xD9, CHR 0x82]"

definition label_upload :: string where
  "label_upload =
     [CHR 0xD8, CHR 0xA2, CHR 0xD9, CHR 0xBE, CHR 0xD9, CHR 0x84, CHR 0xD9, CHR 0x88,
      CHR 0xD8, CHR 0xAF]"

definition label_download :: string where
  "label_download =
     [CHR 0xD8, CHR 0xAF, CHR 0xD8, CHR 0xA7, CHR 0xD9, CHR 0x86, CHR 0xD9, CHR 0x84,
      CHR 0xD9, CHR 0x88, CHR 0xD8, CHR 0xAF]"

text \<open>The log held in memory as the value \<open>json.dump\<close> is given.\<close>

definition json_of_entry :: "history_entry \<Rightarrow> json" where
  "json_of_entry entry =
     JObject [(''date'', JString (entry_date entry)), (''type'', JString (entry_type entry)),
              (''file'', JString (entry_file entry)), (''status'', JString (entry_status entry))]"

definition json_of_history :: "history_entry list \<Rightarrow> json" where
  "json_of_history h = JArray (map json_of_entry h)"

text \<open>
  \<open>load_history\<close>: the body of the \<open>try\<close>, then the bare \<open>except\<close>. A file that
  does not exist gives the empty list; otherwise the file is opened and what
  \<open>json.load\<close> returns is returned as it is, whatever its shape.
\<close>

definition load_history_try :: "library \<Rightarrow> app \<Rightarrow> py_error + json" where
  "load_history_try L s =
     (case content (history_file s) of
        None \<Rightarrow> Inr (JArray [])
      | Some text \<Rightarrow>
          (case read_error (history_file s) of
             Some err \<Rightarrow> Inl err
           | None \<Rightarrow> json_load L text))"

definition load_history :: "library \<Rightarrow> app \<Rightarrow> json" where
  "load_history L s = (case load_history_try L s of Inl err \<Rightarrow> JArray [] | Inr v \<Rightarrow> v)"

text \<open>
  \<open>save_history\<close>: \<open>open(..., "w")\<close> raises or the list held in memory is dumped.
  The method has no handler, so the exception leaves it; the file is then as it was.
\<close>

definition save_history :: "library \<Rightarrow> app \<Rightarrow> app \<times> flow" where
  "save_history L s =
     (case write_error (history_file s) of
        Some err \<Rightarrow> (s, Raise err)
      | None \<Rightarrow>
          (emit HistoryFlush
             (s\<lparr>history_file := (history_file s)
                   \<lparr>content := Some (json_dump L (json_of_history (transfer_history s)))\<rparr>\<rparr>),
           Continue))"

definition row_of :: "history_entry \<Rightarrow> item_values" where
  "row_of item =
     (entry_date item,
      if entry_type item = ''upload'' then label_upload else label_download,
      entry_file item,
      if entry_status item = ''success'' then label_success else label_failed)"

definition update_history_display :: "app \<Rightarrow> app" where
  "update_history_display s = s\<lparr>history_tree := map row_of (rev (transfer_history s))\<rparr>"

text \<open>
  \<open>add_to_history\<close>: append, save, refresh the tree. When the save raises, the entry
  is already in the list and the tree is not refreshed.
\<close>

definition add_to_history ::
  "library \<Rightarrow> string \<Rightarrow> string \<Rightarrow> string \<Rightarrow> string \<Rightarrow> app \<Rightarrow> app \<times> flow" where
  "add_to_history L transfer_type filename st clock s =
     (let entry = \<lparr>entry_date = clock, entry_type = transfer_type,
                    entry_file = filename, entry_status = st\<rparr>;
          s1 = emit (HistoryAppend entry) (s\<lparr>transfer_history := transfer_history s @ [entry]\<rparr>)
      in case save_history L s1 of (s2, saved) \<Rightarrow>
           (case saved of
              Raise err \<Rightarrow> (s2, Raise err)
            | Continue \<Rightarrow> (update_history_display s2, Continue)
            | Return \<Rightarrow> (update_history_display s2, Continue)))"


text \<open>
  \<open>self.history_tree.item(item_id)["values"]\<close>: the stored row, each value converted.
\<close>

definition convert_stringval :: "library \<Rightarrow> string \<Rightarrow> tk_value" where
  "convert_stringval L v = (case str_int L v of Some n \<Rightarrow> TkInt n | None \<Rightarrow> TkStr v)"

definition tree_item_values ::
  "library \<Rightarrow> item_values \<Rightarrow> tk_value \<times> tk_value \<times> tk_value \<times> tk_value" where
  "tree_item_values L row =
     (case row of (v0, v1, v2, v3) \<Rightarrow>
        (convert_stringval L v0, convert_stringval L v1,
         convert_stringval L v2, convert_stringval L v3))"

text \<open>Python's \<open>==\<close> between a string and a value read from the tree.\<close>

fun str_eq :: "string \<Rightarrow> tk_value \<Rightarrow> bool" where
  "str_eq t (TkStr v) = (t = v)"
| "str_eq t (TkInt n) = False"

text \<open>
  The condition of the inner loop of \<open>delete_selected_history\<close>: date and file are
  compared with the first and third value read from the tree, the status with the one
  the fourth value stands for.
\<close>

definition matches ::
  "tk_value \<times> tk_value \<times> tk_value \<times> tk_value \<Rightarrow> history_entry \<Rightarrow> bool" where
  "matches item_values entry =
     (case item_values of (v0, v1, v2, v3) \<Rightarrow>
        str_eq (entry_date entry) v0 \<and> str_eq (entry_file entry) v2 \<and>
        entry_status entry = (if str_eq label_success v3 then ''success'' else ''failed''))"

text \<open>The inner loop: delete at the first index whose entry matches, then \<open>break\<close>.\<close>

fun delete_entry ::
  "tk_value \<times> tk_value \<times> tk_value \<times> tk_value \<Rightarrow> history_entry list \<Rightarrow> history_entry list" where
  "delete_entry item_values [] = []"
| "delete_entry item_values (entry # rest) =
     (if matches item_values entry then rest else entry # delete_entry item_values rest)"

text \<open>
  \<open>delete_selected_history\<close>. \<open>selected_items\<close> are the rows stored with the selected
  items of the tree; \<open>confirmed\<close> is the answer to the dialog.
\<close>

definition delete_selected_history ::
  "library \<Rightarrow> item_values list \<Rightarrow> bool \<Rightarrow> app \<Rightarrow> app \<times> flow" where
  "delete_selected_history L selected_items confirmed s =
     (if selected_items = [] then (emit (ShowWarning SelectEntryWarning) s, Return)
      else if confirmed
      then (case save_history L
                   (s\<lparr>transfer_history :=
                        foldl (\<lambda>h row. delete_entry (tree_item_values L row) h)
                              (transfer_history s) selected_items\<rparr>) of (s1, saved) \<Rightarrow>
              (case saved of
                 Raise err \<Rightarrow> (s1, Raise err)
               | Continue \<Rightarrow> (update_history_display s1, Continue)
               | Return \<Rightarrow> (update_history_display s1, Continue)))
      else (s, Continue))"

subsection \<open>Progress display\<close>

text \<open>
  \<open>update_progress\<close>: Python's \<open>/\<close> raises when the divisor is zero. The bar holds
  the exact quotient times 100, of which Python keeps the nearest double; the label is
  kept as the sample it is formatted from.
\<close>

definition update_progress :: "int \<Rightarrow> int \<Rightarrow> app \<Rightarrow> py_error + app" where
  "update_progress transferred total' s =
     (if total' = 0 then Inl ZeroDivisionError
      else Inr (s\<lparr>progress_bar := (of_int transferred / of_int total') * 100,
                  progress_label := Some (transferred, total')\<rparr>))"

subsection \<open>Transfers\<close>

text \<open>\<open>os.path.basename\<close> on a POSIX path: what follows the last slash.\<close>

definition basename :: "string \<Rightarrow> string" where
  "basename p = rev (takeWhile (\<lambda>c. c \<noteq> CHR ''/'') (rev p))"

text \<open>
  The callback handed to \<open>sftp.put\<close> and \<open>sftp.get\<close> schedules
  \<open>update_progress\<close> on the main loop with the sample unchanged; the library calls it
  once per sample.
\<close>

definition callback :: "int \<times> int \<Rightarrow> app \<Rightarrow> app" where
  "callback sample s = emit (Progress (fst sample) (snd sample)) s"

fun deliver :: "(int \<times> int) list \<Rightarrow> app \<Rightarrow> app" where
  "deliver [] s = s"
| "deliver (sample # samples) s = deliver samples (callback sample s)"

text \<open>
  Lines 445 to 449: the transport, its \<open>connect\<close>, the SFTP client. Each call is
  recorded when it is made; a call that raises ends the block.
\<close>

definition open_session :: "env \<Rightarrow> app \<Rightarrow> app \<times> flow" where
  "open_session e s =
     (let s1 = emit (TransportOpen (server_entry s)) s in
      case transport_result e of
        Some err \<Rightarrow> (s1, Raise err)
      | None \<Rightarrow>
          (let s2 = emit (TransportConnect (username_entry s) (password_entry s)) s1 in
           case connect_result e of
             Some err \<Rightarrow> (s2, Raise err)
           | None \<Rightarrow>
               (let s3 = emit SftpOpen s2 in
                case sftp_result e of
                  Some err \<Rightarrow> (s3, Raise err)
                | None \<Rightarrow> (s3, Continue))))"

text \<open>The branch \<open>action == "upload"\<close>, lines 452 to 481.\<close>

definition upload_branch :: "library \<Rightarrow> env \<Rightarrow> app \<Rightarrow> app \<times> flow" where
  "upload_branch L e s =
     (case file_path s of
        None \<Rightarrow> (s, Raise AttributeError)
      | Some p \<Rightarrow>
          (let remote_path = basename p;
               s1 = emit (GetSize p) s in
           case getsize_result e of
             Inl err \<Rightarrow> (s1, Raise err)
           | Inr file_size \<Rightarrow>
               (let s2 = deliver (put_samples e) (emit (SftpPut p remote_path) s1) in
                case put_result e of
                  Some err \<Rightarrow> (s2, Raise err)
                | None \<Rightarrow>
                    (let s3 = emit (Status (Uploaded remote_path)) s2 in
                     case add_to_history L ''upload'' (basename p) ''success'' (now e) s3 of
                       (s4, recorded) \<Rightarrow>
                         (case recorded of
                            Raise err \<Rightarrow> (s4, Raise err)
                          | Continue \<Rightarrow> (emit (ShowInfo Upload (basename p)) s4, Continue)
                          | Return \<Rightarrow> (emit (ShowInfo Upload (basename p)) s4, Continue))))))"

text \<open>
  The branch \<open>action == "download"\<close>, lines 484 to 520. An empty answer of the save
  dialog records a failed entry and returns. \<open>sftp.get\<close> opens the local file for
  writing before it reads the remote one, so the call creates the file whatever its
  outcome.
\<close>

definition download_branch :: "library \<Rightarrow> string \<Rightarrow> env \<Rightarrow> app \<Rightarrow> app \<times> flow" where
  "download_branch L remote_file e s =
     (let s1 = emit (AskSaveAs remote_file) s in
      if save_path e = []
      then (case add_to_history L ''download'' remote_file ''failed'' (now e)
                   (emit (Status Stopped) s1) of
              (s2, recorded) \<Rightarrow>
                (case recorded of
                   Raise err \<Rightarrow> (s2, Raise err)
                 | Continue \<Rightarrow> (s2, Return)
                 | Return \<Rightarrow> (s2, Return)))
      else
        (let s2 = emit (SftpStat remote_file) s1 in
         case stat_result e of
           Inl err \<Rightarrow> (s2, Raise err)
         | Inr file_size \<Rightarrow>
             (let s3 = emit (SftpGet remote_file (save_path e)) s2;
                  s4 = deliver (get_samples e)
                         (s3\<lparr>local_files := local_files s3 @ [save_path e]\<rparr>) in
              case get_result e of
                Some err \<Rightarrow> (s4, Raise err)
              | None \<Rightarrow>
                  (let s5 = emit (Status (Saved (save_path e))) s4 in
                   case add_to_history L ''download'' remote_file ''success'' (now e) s5 of
                     (s6, recorded) \<Rightarrow>
                       (case recorded of
                          Raise err \<Rightarrow> (s6, Raise err)
                        | Continue \<Rightarrow> (emit (ShowInfo Download remote_file) s6, Continue)
                        | Return \<Rightarrow> (emit (ShowInfo Download remote_file) s6, Continue))))))"

text \<open>
  The \<open>try\<close> block, lines 435 to 524. The two \<open>close\<close> calls are its last
  statements: they run when the branch ran to its end.
\<close>

definition try_block :: "library \<Rightarrow> action \<Rightarrow> string \<Rightarrow> env \<Rightarrow> app \<Rightarrow> app \<times> flow" where
  "try_block L act remote_file e s =
     (let s0 = emit (Status Connecting) (s\<lparr>progress_bar := 0, progress_label := None\<rparr>) in
      case open_session e s0 of (s1, opened) \<Rightarrow>
        (case opened of
           Continue \<Rightarrow>
             (case (case act of
                      Upload \<Rightarrow> upload_branch L e s1
                    | Download \<Rightarrow> download_branch L remote_file e s1) of (s2, done) \<Rightarrow>
                (case done of
                   Continue \<Rightarrow> (emit TransportClose (emit SftpClose s2), Continue)
                 | Return \<Rightarrow> (s2, Return)
                 | Raise err \<Rightarrow> (s2, Raise err)))
         | Return \<Rightarrow> (s1, Return)
         | Raise err \<Rightarrow> (s1, Raise err)))"

text \<open>
  The \<open>except\<close> block, lines 526 to 545. The file name of an upload is read from
  \<open>self.file_path\<close> again; were the attribute missing, the handler itself would raise.
  An exception raised in the handler, by that read or by \<open>add_to_history\<close>, is caught
  nowhere: it ends the thread.
\<close>

definition except_block ::
  "library \<Rightarrow> action \<Rightarrow> string \<Rightarrow> py_error \<Rightarrow> env \<Rightarrow> app \<Rightarrow> app" where
  "except_block L act remote_file err e s =
     (let s1 = emit (Status Blank) (emit (ShowError (TransferFailed act err)) s) in
      case act of
        Download \<Rightarrow>
          (case add_to_history L ''download'' remote_file ''failed'' (now e) s1 of
             (s2, recorded) \<Rightarrow>
               (case recorded of
                  Raise err2 \<Rightarrow> emit (Uncaught err2) s2
                | Continue \<Rightarrow> s2
                | Return \<Rightarrow> s2))
      | Upload \<Rightarrow>
          (case file_path s1 of
             None \<Rightarrow> emit (Uncaught AttributeError) s1
           | Some p \<Rightarrow>
               (case add_to_history L ''upload'' (basename p) ''failed'' (now e) s1 of
                  (s2, recorded) \<Rightarrow>
                    (case recorded of
                       Raise err2 \<Rightarrow> emit (Uncaught err2) s2
                     | Continue \<Rightarrow> s2
                     | Return \<Rightarrow> s2))))"

text \<open>
  \<open>_transfer_file\<close>. For an upload the parameter \<open>remote_file\<close> is never read; the
  callers below pass the empty string where the source leaves the default.
\<close>

definition transfer_file :: "library \<Rightarrow> action \<Rightarrow> string \<Rightarrow> env \<Rightarrow> app \<Rightarrow> app" where
  "transfer_file L act remote_file e s =
     (if server_entry s = [] \<or> username_entry s = [] \<or> password_entry s = []
      then emit (ShowError FillAllDetails) s
      else
        (case try_block L act remote_file e s of (s1, done) \<Rightarrow>
           (case done of
              Raise err \<Rightarrow> except_block L act remote_file err e s1
            | Continue \<Rightarrow> s1
            | Return \<Rightarrow> s1)))"

text \<open>
  \<open>upload_file\<close> and \<open>download_file\<close> start \<open>_transfer_file\<close> on a thread of its
  own; the model runs it to its end in place.
\<close>

definition upload_file :: "library \<Rightarrow> env \<Rightarrow> app \<Rightarrow> app" where
  "upload_file L e s =
     (case file_path s of
        None \<Rightarrow> emit (ShowError ChooseUploadFile) s
      | Some p \<Rightarrow>
          if p = [] then emit (ShowError ChooseUploadFile) s
          else transfer_file L Upload [] e s)"

definition download_file :: "library \<Rightarrow> env \<Rightarrow> app \<Rightarrow> app" where
  "download_file L e s =
     (let remote_file = remote_file_entry s in
      if remote_file = [] then emit (ShowError EnterRemoteName) s
      else transfer_file L Download remote_file e s)"

subsection \<open>Reading a trace\<close>

fun is_byte_transfer :: "event \<Rightarrow> bool" where
  "is_byte_transfer (SftpPut p r) = True"
| "is_byte_transfer (SftpGet r p) = True"
| "is_byte_transfer (Progress t n) = True"
| "is_byte_transfer ev = False"

fun is_append :: "event \<Rightarrow> bool" where
  "is_append (HistoryAppend entry) = True"
| "is_append ev = False"

fun is_close :: "event \<Rightarrow> bool" where
  "is_close SftpClose = True"
| "is_close TransportClose = True"
| "is_close ev = False"

fun is_stat :: "event \<Rightarrow> bool" where
  "is_stat (SftpStat r) = True"
| "is_stat ev = False"

text \<open>
  Orderings read off a trace. \<open>recorded_after_close\<close>: no history entry is appended
  before the first close, so every append follows a close. \<open>recorded_after_transfer\<close>:
  from the first append on, no byte is transferred. \<open>closed_after_record\<close>: nothing is
  closed before the first append. \<open>stat_before_stream\<close>: no byte is transferred before
  the first \<open>sftp.stat\<close>.
\<close>

definition recorded_after_close :: "event list \<Rightarrow> bool" where
  "recorded_after_close tr =
     list_all (\<lambda>ev. \<not> is_append ev) (takeWhile (\<lambda>ev. \<not> is_close ev) tr)"

definition recorded_after_transfer :: "event list \<Rightarrow> bool" where
  "recorded_after_transfer tr =
     list_all (\<lambda>ev. \<not> is_byte_transfer ev) (dropWhile (\<lambda>ev. \<not> is_append ev) tr)"

definition closed_after_record :: "event list \<Rightarrow> bool" where
  "closed_after_record tr =
     list_all (\<lambda>ev. \<not> is_close ev) (takeWhile (\<lambda>ev. \<not> is_append ev) tr)"

definition stat_before_stream :: "event list \<Rightarrow> bool" where
  "stat_before_stream tr =
     list_all (\<lambda>ev. \<not> is_byte_transfer ev) (takeWhile (\<lambda>ev. \<not> is_stat ev) tr)"

text \<open>
  The events that end an attempt's record: the flush of the entry just appended or, when
  the history file cannot be opened for writing, the exception that nothing catches.
\<close>

definition record_end :: "app \<Rightarrow> event list" where
  "record_end s =
     (case write_error (history_file s) of None \<Rightarrow> [HistoryFlush] | Some err \<Rightarrow> [Uncaught err])"

text \<open>
  The two states \<open>add_to_history\<close> passes through: the entry appended to the list in
  memory, and the list dumped to the file with the tree refreshed.
\<close>

definition appended :: "history_entry \<Rightarrow> app \<Rightarrow> app" where
  "appended entry s =
     emit (HistoryAppend entry) (s\<lparr>transfer_history := transfer_history s @ [entry]\<rparr>)"

definition flushed :: "library \<Rightarrow> app \<Rightarrow> app" where
  "flushed L s =
     update_history_display
       (emit HistoryFlush
          (s\<lparr>history_file := (history_file s)
               \<lparr>content := Some (json_dump L (json_of_history (transfer_history s)))\<rparr>\<rparr>))"

text \<open>The index at which the inner loop of \<open>delete_selected_history\<close> stops.\<close>

definition first_match ::
  "tk_value \<times> tk_value \<times> tk_value \<times> tk_value \<Rightarrow> history_entry list \<Rightarrow> nat" where
  "first_match item_values h = length (takeWhile (\<lambda>entry. \<not> matches item_values entry) h)"

subsection \<open>Concrete inputs\<close>

text \<open>
  \<open>ascii_int\<close> is \<open>int\<close> on ASCII text: surrounding white space, a sign, decimal
  digits with single underscores between them, at most 4300 digits. \<open>int\<close> also reads
  the digits and spaces of other scripts; a text with such characters is left a text here.
\<close>

definition ascii_space :: "char \<Rightarrow> bool" where
  "ascii_space c = (c \<in> set [CHR 0x20, CHR 0x09, CHR 0x0A, CHR 0x0B, CHR 0x0C, CHR 0x0D])"

definition is_digit :: "char \<Rightarrow> bool" where
  "is_digit c = (48 \<le> (of_char c :: nat) \<and> (of_char c :: nat) \<le> 57)"

definition digit_value :: "char \<Rightarrow> nat" where
  "digit_value c = of_char c - 48"

definition strip :: "string \<Rightarrow> string" where
  "strip t = rev (dropWhile ascii_space (rev (dropWhile ascii_space t)))"

fun grouped :: "string \<Rightarrow> bool" where
  "grouped [] = False"
| "grouped [c] = is_digit c"
| "grouped (c # d # cs) =
     (is_digit c \<and> (if d = CHR ''_'' then grouped cs else grouped (d # cs)))"

definition ascii_int :: "string \<Rightarrow> int option" where
  "ascii_int t =
     (let u = strip t;
          negative = (case u of [] \<Rightarrow> False | c # cs \<Rightarrow> c = CHR ''-'');
          body = (case u of [] \<Rightarrow> []
                  | c # cs \<Rightarrow> if c = CHR ''-'' \<or> c = CHR ''+'' then cs else u);
          ds = filter is_digit body;
          n = int (foldl (\<lambda>n c. 10 * n + digit_value c) 0 ds)
      in if grouped body \<and> length ds \<le> 4300
         then Some (if negative then - n else n) else None)"

text \<open>Texts as \<open>json.dump\<close> writes them with \<open>indent=2\<close>: lines joined by newlines.\<close>

fun join_lines :: "string list \<Rightarrow> string" where
  "join_lines [] = []"
| "join_lines [l] = l"
| "join_lines (l # m # ls) = l @ CHR 0x0A # join_lines (m # ls)"

text \<open>Entries for one file name, one for a file named with digits, and their logs.\<close>

definition entry_a :: history_entry where
  "entry_a = \<lparr>entry_date = ''2024-01-01 10:00'', entry_type = ''upload'',
              entry_file = ''a.txt'', entry_status = ''success''\<rparr>"

definition entry_b :: history_entry where
  "entry_b = \<lparr>entry_date = ''2024-01-01 10:00'', entry_type = ''upload'',
              entry_file = ''a.txt'', entry_status = ''failed''\<rparr>"

definition entry_c :: history_entry where
  "entry_c = \<lparr>entry_date = ''2024-01-02 09:30'', entry_type = ''download'',
              entry_file = ''a.txt'', entry_status = ''failed''\<rparr>"

definition entry_d :: history_entry where
  "entry_d = \<lparr>entry_date = ''2024-01-01 10:00'', entry_type = ''download'',
              entry_file = ''missing.bin'', entry_status = ''failed''\<rparr>"

definition entry_n :: history_entry where
  "entry_n = \<lparr>entry_date = ''2024-01-01 10:00'', entry_type = ''upload'',
              entry_file = ''123'', entry_status = ''success''\<rparr>"

definition text_one :: string where
  \<open>text_one =
     join_lines
     [''['',
      ''  {'',
      ''    "date": "2024-01-01 10:00",'',
      ''    "type": "download",'',
      ''    "file": "missing.bin",'',
      ''    "status": "failed"'',
      ''  }'',
      '']'']\<close>

definition text_three :: string where
  \<open>text_three =
     join_lines
     [''['',
      ''  {'',
      ''    "date": "2024-01-01 10:00",'',
      ''    "type": "upload",'',
      ''    "file": "a.txt",'',
      ''    "status": "success"'',
      ''  },'',
      ''  {'',
      ''    "date": "2024-01-01 10:00",'',
      ''    "type": "upload",'',
      ''    "file": "a.txt",'',
      ''    "status": "failed"'',
      ''  },'',
      ''  {'',
      ''    "date": "2024-01-02 09:30",'',
      ''    "type": "download",'',
      ''    "file": "a.txt",'',
      ''    "status": "failed"'',
      ''  }'',
      '']'']\<close>

definition text_numbered :: string where
  \<open>text_numbered =
     join_lines
     [''['',
      ''  {'',
      ''    "date": "2024-01-01 10:00",'',
      ''    "type": "upload",'',
      ''    "file": "123",'',
      ''    "status": "success"'',
      ''  }'',
      '']'']\<close>

text \<open>A well-formed document that is not a log.\<close>

definition text_other :: string where
  \<open>text_other = ''{"entries": []}''\<close>

text \<open>
  \<open>py_sample\<close> answers as the library does on the values and texts that occur below:
  the empty log, the three logs above and the document that is no log. Nothing below
  evaluates it elsewhere; there it answers with the text \<open>null\<close> and with a decoding error.
\<close>

definition sample_dump :: "json \<Rightarrow> string" where
  "sample_dump v =
     (if v = JArray [] then ''[]''
      else if v = json_of_history [entry_d] then text_one
      else if v = json_of_history [entry_a, entry_b, entry_c] then text_three
      else if v = json_of_history [entry_n] then text_numbered
      else ''null'')"

definition sample_load :: "string \<Rightarrow> py_error + json" where
  "sample_load t =
     (if t = ''[]'' then Inr (JArray [])
      else if t = text_one then Inr (json_of_history [entry_d])
      else if t = text_three then Inr (json_of_history [entry_a, entry_b, entry_c])
      else if t = text_numbered then Inr (json_of_history [entry_n])
      else if t = text_other then Inr (JObject [(''entries'', JArray [])])
      else Inl JSONDecodeError)"

definition py_sample :: library where
  "py_sample = \<lparr>json_dump = sample_dump, json_load = sample_load, str_int = ascii_int\<rparr>"

text \<open>
  A freshly started application with the server fields filled in, a local file selected
  and a remote name entered, no history file yet, and collaborators that let a ten-byte
  transfer through.
\<close>

definition idle_app :: app where
  "idle_app =
     \<lparr>server_entry = ''h'', username_entry = ''u'', password_entry = ''p'',
      remote_file_entry = ''missing.bin'', file_path = Some ''/tmp/a.txt'',
      transfer_history = [],
      history_file = \<lparr>content = None, read_error = None, write_error = None\<rparr>,
      history_tree = [],
      progress_bar = 0, progress_label = None, local_files = [], trace = []\<rparr>"

definition working_env :: env where
  "working_env =
     \<lparr>now = ''2024-01-01 10:00'', transport_result = None, connect_result = None,
      sftp_result = None, getsize_result = Inr 10, put_samples = [(4, 10), (10, 10)],
      put_result = None, save_path = ''/home/u/a.bin'', stat_result = Inr 10,
      get_samples = [(4, 10), (10, 10)], get_result = None\<rparr>"

text \<open>The save dialog is cancelled; the remote file does not exist; the upload breaks.\<close>

definition declining_env :: env where
  "declining_env = working_env\<lparr>save_path := []\<rparr>"

definition absent_env :: env where
  "absent_env = working_env\<lparr>stat_result := Inl FileNotFoundError\<rparr>"

definition broken_put_env :: env where
  "broken_put_env = working_env\<lparr>put_samples := [(4, 10)], put_result := Some OSError\<rparr>"

text \<open>
  Applications that hold a log: three entries for one file name; one entry, with a
  history file that can no longer be opened for writing; one entry for a file named 123.
\<close>

definition used_app :: app where
  "used_app = idle_app\<lparr>transfer_history := [entry_a, entry_b, entry_c],
       history_file := \<lparr>content = Some text_three, read_error = None, write_error = None\<rparr>,
       history_tree := map row_of [entry_c, entry_b, entry_a]\<rparr>"


definition numbered_app :: app where
  "numbered_app = idle_app\<lparr>transfer_history := [entry_n],
       history_file := \<lparr>content = Some text_numbered, read_error = None,
                         write_error = None\<rparr>,
       history_tree := [row_of entry_n]\<rparr>"

text \<open>An application whose history file holds the document that is no log.\<close>

definition foreign_app :: app where
  "foreign_app = idle_app\<lparr>history_file :=
       \<lparr>content = Some text_other, read_error = None, write_error = None\<rparr>\<rparr>"

text \<open>The same application as \<open>idle_app\<close> with a history file that cannot be written.\<close>

definition readonly_app :: app where
  "readonly_app = idle_app\<lparr>history_file :=
       \<lparr>content = None, read_error = None, write_error = Some OSError\<rparr>\<rparr>"

section \<open>Properties\<close>

subsection \<open>What each step changes\<close>

lemma emit_fields [simp]:
  "trace (emit ev s) = trace s @ [ev]"
  "server_entry (emit ev s) = server_entry s"
  "username_entry (emit ev s) = username_entry s"
  "password_entry (emit ev s) = password_entry s"
  "remote_file_entry (emit ev s) = remote_file_entry s"
  "file_path (emit ev s) = file_path s"
  "transfer_history (emit ev s) = transfer_history s"
  "history_file (emit ev s) = history_file s"
  "history_tree (emit ev s) = history_tree s"
  "progress_bar (emit ev s) = progress_bar s"
  "progress_label (emit ev s) = progress_label s"
  "local_files (emit ev s) = local_files s"
  by (simp_all add: emit_def)

text \<open>The callback forwards every sample, unchanged and in the order it was given.\<close>

lemma deliver_fields [simp]:
  "trace (deliver samples s) = trace s @ map (\<lambda>x. Progress (fst x) (snd x)) samples"
  "server_entry (deliver samples s) = server_entry s"
  "username_entry (deliver samples s) = username_entry s"
  "password_entry (deliver samples s) = password_entry s"
  "remote_file_entry (deliver samples s) = remote_file_entry s"
  "file_path (deliver samples s) = file_path s"
  "transfer_history (deliver samples s) = transfer_history s"
  "history_file (deliver samples s) = history_file s"
  "history_tree (deliver samples s) = history_tree s"
  "progress_bar (deliver samples s) = progress_bar s"
  "progress_label (deliver samples s) = progress_label s"
  "local_files (deliver samples s) = local_files s"
  by (induction samples arbitrary: s) (simp_all add: callback_def)

declare deliver.simps [simp del]

text \<open>
  \<open>add_to_history\<close> always appends to the list in memory; whether the entry reaches
  the file, and whether the call returns, is decided by the open for writing.
\<close>

lemma appended_fields [simp]:
  "trace (appended entry s) = trace s @ [HistoryAppend entry]"
  "transfer_history (appended entry s) = transfer_history s @ [entry]"
  "history_file (appended entry s) = history_file s"
  "history_tree (appended entry s) = history_tree s"
  "server_entry (appended entry s) = server_entry s"
  "username_entry (appended entry s) = username_entry s"
  "password_entry (appended entry s) = password_entry s"
  "remote_file_entry (appended entry s) = remote_file_entry s"
  "file_path (appended entry s) = file_path s"
  "progress_bar (appended entry s) = progress_bar s"
  "progress_label (appended entry s) = progress_label s"
  "local_files (appended entry s) = local_files s"
  by (simp_all add: appended_def)

lemma flushed_fields [simp]:
  "trace (flushed L s) = trace s @ [HistoryFlush]"
  "transfer_history (flushed L s) = transfer_history s"
  "history_file (flushed L s) =
     (history_file s)\<lparr>content := Some (json_dump L (json_of_history (transfer_history s)))\<rparr>"
  "history_tree (flushed L s) = map row_of (rev (transfer_history s))"
  "server_entry (flushed L s) = server_entry s"
  "username_entry (flushed L s) = username_entry s"
  "password_entry (flushed L s) = password_entry s"
  "remote_file_entry (flushed L s) = remote_file_entry s"
  "file_path (flushed L s) = file_path s"
  "progress_bar (flushed L s) = progress_bar s"
  "progress_label (flushed L s) = progress_label s"
  "local_files (flushed L s) = local_files s"
  by (simp_all add: flushed_def update_history_display_def)

lemma save_history_eq:
  "save_history L s =
     (case write_error (history_file s) of
        None \<Rightarrow> (emit HistoryFlush
                   (s\<lparr>history_file := (history_file s)
                        \<lparr>content := Some (json_dump L (json_of_history (transfer_history s)))\<rparr>\<rparr>),
                  Continue)
      | Some err \<Rightarrow> (s, Raise err))"
  by (simp add: save_history_def split: option.splits)

lemma add_to_history_eq:
  "add_to_history L t f st clock s =
     (case write_error (history_file s) of
        None \<Rightarrow> (flushed L (appended \<lparr>entry_date = clock, entry_type = t,
                                        entry_file = f, entry_status = st\<rparr> s), Continue)
      | Some err \<Rightarrow> (appended \<lparr>entry_date = clock, entry_type = t,
                               entry_file = f, entry_status = st\<rparr> s, Raise err))"
  by (simp add: add_to_history_def save_history_def appended_def flushed_def Let_def
        split: option.splits)


lemmas transfer_defs = transfer_file_def try_block_def except_block_def open_session_def
  upload_branch_def download_branch_def upload_file_def download_file_def new_events_def
  add_to_history_eq

lemmas input_defs = idle_app_def working_env_def declining_env_def absent_env_def
  broken_put_env_def basename_def readonly_app_def

lemma samples_before_append [simp]:
  "dropWhile (\<lambda>ev. \<not> is_append ev) (map (\<lambda>x. Progress (fst x) (snd x)) xs @ ys) =
     dropWhile (\<lambda>ev. \<not> is_append ev) ys"
  "takeWhile (\<lambda>ev. \<not> is_append ev) (map (\<lambda>x. Progress (fst x) (snd x)) xs @ ys) =
     map (\<lambda>x. Progress (fst x) (snd x)) xs @ takeWhile (\<lambda>ev. \<not> is_append ev) ys"
  by (induction xs) simp_all

lemma samples_close_nothing [simp]:
  "list_all (\<lambda>ev. \<not> is_close ev) (map (\<lambda>x. Progress (fst x) (snd x)) xs)"
  by (induction xs) simp_all

subsection \<open>The sample library\<close>

lemma texts_differ:
  "text_one \<noteq> ''[]''" "text_three \<noteq> ''[]''" "text_numbered \<noteq> ''[]''" "text_other \<noteq> ''[]''"
  "text_three \<noteq> text_one" "text_numbered \<noteq> text_one" "text_other \<noteq> text_one"
  "text_numbered \<noteq> text_three" "text_other \<noteq> text_three" "text_other \<noteq> text_numbered"
  by (simp_all add: text_one_def text_three_def text_numbered_def text_other_def)

lemma sample_load_simps:
  "json_load py_sample ''[]'' = Inr (JArray [])"
  "json_load py_sample text_one = Inr (json_of_history [entry_d])"
  "json_load py_sample text_three = Inr (json_of_history [entry_a, entry_b, entry_c])"
  "json_load py_sample text_numbered = Inr (json_of_history [entry_n])"
  "json_load py_sample text_other = Inr (JObject [(''entries'', JArray [])])"
  by (simp_all add: py_sample_def sample_load_def texts_differ)

lemma sample_dump_simps:
  "json_dump py_sample (JArray []) = ''[]''"
  "json_dump py_sample (json_of_history [entry_d]) = text_one"
  "json_dump py_sample (json_of_history [entry_a, entry_b, entry_c]) = text_three"
  "json_dump py_sample (json_of_history [entry_n]) = text_numbered"
  by (simp_all add: py_sample_def sample_dump_def json_of_history_def json_of_entry_def
        entry_a_def entry_b_def entry_c_def entry_d_def entry_n_def)

lemma sample_int_simps:
  "str_int py_sample ''123'' = Some 123"
  "str_int py_sample ''a.txt'' = None"
  "str_int py_sample ''missing.bin'' = None"
  "str_int py_sample ''2024-01-01 10:00'' = None"
  "str_int py_sample ''2024-01-02 09:30'' = None"
  "str_int py_sample label_upload = None"
  "str_int py_sample label_download = None"
  "str_int py_sample label_success = None"
  "str_int py_sample label_failed = None"
  by (simp_all add: py_sample_def ascii_int_def strip_def ascii_space_def is_digit_def
        digit_value_def label_upload_def label_download_def label_success_def label_failed_def
        Let_def)

subsection \<open>History store\<close>

lemma load_history_cases:
  "content (history_file s) = None \<Longrightarrow> load_history L s = JArray []"
  "content (history_file s) = Some text \<Longrightarrow> read_error (history_file s) = Some err \<Longrightarrow>
     load_history L s = JArray []"
  "content (history_file s) = Some text \<Longrightarrow> read_error (history_file s) = None \<Longrightarrow>
     json_load L text = Inl err \<Longrightarrow> load_history L s = JArray []"
  "content (history_file s) = Some text \<Longrightarrow> read_error (history_file s) = None \<Longrightarrow>
     json_load L text = Inr v \<Longrightarrow> load_history L s = v"
  by (simp_all add: load_history_def load_history_try_def)







text \<open>
  Where the file is missing, cannot be opened or cannot be decoded, the exception stays
  inside \<open>load_history\<close> and the empty log is returned; a document that decodes is
  returned as decoded.
\<close>

lemma load_history_lenient:
  "content (history_file s) = None \<or>
   read_error (history_file s) \<noteq> None \<or>
   (\<exists>text err. content (history_file s) = Some text \<and> json_load L text = Inl err) \<Longrightarrow>
   load_history L s = JArray []"
  by (auto simp: load_history_def load_history_try_def split: option.splits)

text \<open>
  C8. \<open>load_history\<close> is to return an empty log whenever the file holds no usable log.
  It does so only where \<open>json.load\<close> raises. A file that holds a well-formed document
  of another shape, here an object, is returned as it was decoded: the caller gets a value
  that is neither empty nor a list of entries, although the method's docstring promises
  a list of transfer history entries.
\<close>

theorem load_history_returns_foreign_document:
  "content (history_file foreign_app) = Some text_other \<and>
   json_load py_sample text_other = Inr (JObject [(''entries'', JArray [])]) \<and>
   load_history py_sample foreign_app = JObject [(''entries'', JArray [])] \<and>
   load_history py_sample foreign_app \<noteq> JArray []"
  by (simp add: foreign_app_def idle_app_def load_history_def load_history_try_def
        sample_load_simps)

subsection \<open>Deleting from the history\<close>

text \<open>
  Where the values read from the tree match an entry, the inner loop removes the first
  such entry and nothing else.
\<close>

lemma delete_entry_first_match:
  "\<exists>entry\<in>set h. matches item entry \<Longrightarrow>
   first_match item h < length h \<and> matches item (h ! first_match item h) \<and>
   delete_entry item h = take (first_match item h) h @ drop (Suc (first_match item h)) h"
  unfolding first_match_def
  by (induction h) auto

lemma delete_entry_no_match:
  "\<forall>entry\<in>set h. \<not> matches item entry \<Longrightarrow> delete_entry item h = h"
  by (induction h) auto

text \<open>
  A row whose file name \<open>int\<close> accepts comes back from the tree with an integer in
  that place; a string never equals it, so the row matches no entry and the loop deletes
  nothing.
\<close>

lemma integer_file_matches_nothing:
  "str_int L (entry_file x) = Some n \<Longrightarrow> \<not> matches (tree_item_values L (row_of x)) entry"
  by (simp add: matches_def tree_item_values_def row_of_def convert_stringval_def)

lemma integer_file_not_deleted:
  "str_int L (entry_file x) = Some n \<Longrightarrow> delete_entry (tree_item_values L (row_of x)) h = h"
  by (rule delete_entry_no_match) (simp add: integer_file_matches_nothing)

lemma labels_differ: "label_success \<noteq> label_failed"
  by (simp add: label_success_def label_failed_def)

lemma sample_rows:
  "tree_item_values py_sample (row_of entry_n) =
     (TkStr ''2024-01-01 10:00'', TkStr label_upload, TkInt 123, TkStr label_success)"
  "tree_item_values py_sample (row_of entry_b) =
     (TkStr ''2024-01-01 10:00'', TkStr label_upload, TkStr ''a.txt'', TkStr label_failed)"
  by (simp_all add: tree_item_values_def row_of_def convert_stringval_def entry_n_def
        entry_b_def sample_int_simps)

lemma delete_one_selected:
  "write_error (history_file s) = None \<Longrightarrow>
   delete_selected_history L [row] True s =
     (flushed L (s\<lparr>transfer_history :=
        delete_entry (tree_item_values L row) (transfer_history s)\<rparr>), Continue)"
  by (simp add: delete_selected_history_def save_history_def flushed_def)

text \<open>
  C6. Deleting by the key of an entry is to remove exactly one matching entry. For an
  entry whose file name is \<open>123\<close> the selected row is read back as
  \<open>(date, type, 123, status)\<close> with the integer 123; no entry matches it, the log keeps
  its entry and is written back unchanged. On a log of three entries named \<open>a.txt\<close>
  the same method removes the one selected entry.
\<close>

theorem numbered_entry_not_deleted:
  "tree_item_values py_sample (row_of entry_n) =
     (TkStr ''2024-01-01 10:00'', TkStr label_upload, TkInt 123, TkStr label_success) \<and>
   snd (delete_selected_history py_sample [row_of entry_n] True numbered_app) = Continue \<and>
   transfer_history (fst (delete_selected_history py_sample [row_of entry_n] True numbered_app)) =
     [entry_n] \<and>
   content (history_file
     (fst (delete_selected_history py_sample [row_of entry_n] True numbered_app))) =
     Some text_numbered \<and>
   transfer_history (fst (delete_selected_history py_sample [row_of entry_b] True used_app)) =
     [entry_a, entry_c]"
proof -
  have numbered: "write_error (history_file numbered_app) = None"
    "transfer_history numbered_app = [entry_n]"
    by (simp_all add: numbered_app_def idle_app_def)
  have used: "write_error (history_file used_app) = None"
    "transfer_history used_app = [entry_a, entry_b, entry_c]"
    by (simp_all add: used_app_def idle_app_def)
  have kept: "\<not> matches (tree_item_values py_sample (row_of entry_n)) entry_n"
    by (simp only: sample_rows) (simp add: matches_def)
  have removed: "\<not> matches (tree_item_values py_sample (row_of entry_b)) entry_a"
    "matches (tree_item_values py_sample (row_of entry_b)) entry_b"
    by (simp_all only: sample_rows)
       (simp_all add: matches_def entry_a_def entry_b_def labels_differ
          labels_differ [symmetric])
  show ?thesis
    by (intro conjI, rule sample_rows)
       (simp_all add: delete_one_selected numbered used kept removed sample_dump_simps)
qed

subsection \<open>Progress display\<close>

text \<open>
  C10. A progress sample whose total is 0 makes \<open>update_progress\<close> raise
  \<open>ZeroDivisionError\<close>: the quotient is not guarded, and the method has no handler.
\<close>

theorem update_progress_zero_total:
  "update_progress transferred 0 s = Inl ZeroDivisionError"
  by (simp add: update_progress_def)

subsection \<open>Validation\<close>

lemma incomplete_details:
  "server_entry s = [] \<or> username_entry s = [] \<or> password_entry s = [] \<Longrightarrow>
   transfer_file L act r e s = emit (ShowError FillAllDetails) s"
  by (simp add: transfer_file_def)

lemma no_upload_file:
  "file_path s = None \<or> file_path s = Some [] \<Longrightarrow>
   upload_file L e s = emit (ShowError ChooseUploadFile) s"
  by (auto simp: upload_file_def)

lemma no_remote_name:
  "remote_file_entry s = [] \<Longrightarrow> download_file L e s = emit (ShowError EnterRemoteName) s"
  by (simp add: download_file_def)

text \<open>
  C9. A validation failure other than the declined save destination starts no attempt and
  records nothing: with incomplete connection details \<open>_transfer_file\<close>, with no local
  file chosen \<open>upload_file\<close>, and with no remote name \<open>download_file\<close> show one error
  dialog and do nothing else; the log in memory and the history file are unchanged.
\<close>

theorem validation_failure_records_nothing:
  "(server_entry s = [] \<or> username_entry s = [] \<or> password_entry s = [] \<longrightarrow>
      transfer_history (transfer_file L act r e s) = transfer_history s \<and>
      history_file (transfer_file L act r e s) = history_file s \<and>
      new_events s (transfer_file L act r e s) = [ShowError FillAllDetails]) \<and>
   (file_path s = None \<or> file_path s = Some [] \<longrightarrow>
      transfer_history (upload_file L e s) = transfer_history s \<and>
      history_file (upload_file L e s) = history_file s \<and>
      new_events s (upload_file L e s) = [ShowError ChooseUploadFile]) \<and>
   (remote_file_entry s = [] \<longrightarrow>
      transfer_history (download_file L e s) = transfer_history s \<and>
      history_file (download_file L e s) = history_file s \<and>
      new_events s (download_file L e s) = [ShowError EnterRemoteName])"
proof (intro conjI impI)
  assume "server_entry s = [] \<or> username_entry s = [] \<or> password_entry s = []"
  then have eq: "transfer_file L act r e s = emit (ShowError FillAllDetails) s"
    by (rule incomplete_details)
  show "transfer_history (transfer_file L act r e s) = transfer_history s"
    and "history_file (transfer_file L act r e s) = history_file s"
    and "new_events s (transfer_file L act r e s) = [ShowError FillAllDetails]"
    by (simp_all add: eq new_events_def)
next
  assume "file_path s = None \<or> file_path s = Some []"
  then have eq: "upload_file L e s = emit (ShowError ChooseUploadFile) s"
    by (rule no_upload_file)
  show "transfer_history (upload_file L e s) = transfer_history s"
    and "history_file (upload_file L e s) = history_file s"
    and "new_events s (upload_file L e s) = [ShowError ChooseUploadFile]"
    by (simp_all add: eq new_events_def)
next
  assume "remote_file_entry s = []"
  then have eq: "download_file L e s = emit (ShowError EnterRemoteName) s"
    by (rule no_remote_name)
  show "transfer_history (download_file L e s) = transfer_history s"
    and "history_file (download_file L e s) = history_file s"
    and "new_events s (download_file L e s) = [ShowError EnterRemoteName]"
    by (simp_all add: eq new_events_def)
qed

theorem validation_failure_records_nothing_witness:
  "new_events (used_app\<lparr>password_entry := []\<rparr>)
     (transfer_file py_sample Upload [] working_env (used_app\<lparr>password_entry := []\<rparr>)) =
     [ShowError FillAllDetails] \<and>
   transfer_history
     (transfer_file py_sample Upload [] working_env (used_app\<lparr>password_entry := []\<rparr>)) =
     [entry_a, entry_b, entry_c] \<and>
   new_events (used_app\<lparr>file_path := None\<rparr>)
     (upload_file py_sample working_env (used_app\<lparr>file_path := None\<rparr>)) =
     [ShowError ChooseUploadFile] \<and>
   transfer_history (upload_file py_sample working_env (used_app\<lparr>file_path := None\<rparr>)) =
     [entry_a, entry_b, entry_c] \<and>
   new_events (used_app\<lparr>remote_file_entry := []\<rparr>)
     (download_file py_sample working_env (used_app\<lparr>remote_file_entry := []\<rparr>)) =
     [ShowError EnterRemoteName] \<and>
   transfer_history
     (download_file py_sample working_env (used_app\<lparr>remote_file_entry := []\<rparr>)) =
     [entry_a, entry_b, entry_c]"
  using validation_failure_records_nothing
          [of "used_app\<lparr>password_entry := []\<rparr>" py_sample Upload "[]" working_env]
        validation_failure_records_nothing
          [of "used_app\<lparr>file_path := None\<rparr>" py_sample Upload "[]" working_env]
        validation_failure_records_nothing
          [of "used_app\<lparr>remote_file_entry := []\<rparr>" py_sample Upload "[]" working_env]
  by (simp add: used_app_def idle_app_def)

subsection \<open>Closing the session\<close>

text \<open>
  C2. The session is to be closed on every exit path once it has been opened. The source
  closes it on one path only, the one that runs the \<open>try\<close> block to its end. After a
  cancelled save dialog the \<open>return\<close> of line 496 leaves the function with the session
  open, and after an upload that breaks in \<open>sftp.put\<close> the \<open>except\<close> block records the
  failure and closes nothing; the successful upload on the same inputs closes both the
  SFTP client and the transport.
\<close>

theorem session_left_open:
  "new_events idle_app (download_file py_sample declining_env idle_app) =
     [Status Connecting, TransportOpen ''h'', TransportConnect ''u'' ''p'', SftpOpen,
      AskSaveAs ''missing.bin'', Status Stopped,
      HistoryAppend \<lparr>entry_date = ''2024-01-01 10:00'', entry_type = ''download'',
                      entry_file = ''missing.bin'', entry_status = ''failed''\<rparr>,
      HistoryFlush] \<and>
   filter is_close (new_events idle_app (download_file py_sample declining_env idle_app)) = [] \<and>
   new_events idle_app (upload_file py_sample broken_put_env idle_app) =
     [Status Connecting, TransportOpen ''h'', TransportConnect ''u'' ''p'', SftpOpen,
      GetSize ''/tmp/a.txt'', SftpPut ''/tmp/a.txt'' ''a.txt'', Progress 4 10,
      ShowError (TransferFailed Upload OSError), Status Blank,
      HistoryAppend \<lparr>entry_date = ''2024-01-01 10:00'', entry_type = ''upload'',
                      entry_file = ''a.txt'', entry_status = ''failed''\<rparr>,
      HistoryFlush] \<and>
   filter is_close (new_events idle_app (upload_file py_sample broken_put_env idle_app)) = [] \<and>
   filter is_close (new_events idle_app (upload_file py_sample working_env idle_app)) =
     [SftpClose, TransportClose]"
  by (simp add: transfer_defs input_defs Let_def)

subsection \<open>Order of transfer, record and close\<close>

text \<open>
  C3, as stated: the history entry is appended after the session was closed. A successful
  upload appends its entry while the session is still open.
\<close>

theorem history_recorded_before_close:
  "\<not> recorded_after_close (new_events idle_app (upload_file py_sample working_env idle_app))"
  by (simp add: recorded_after_close_def transfer_defs input_defs Let_def)

lemma upload_record_order:
  "recorded_after_transfer (new_events s (transfer_file L Upload r e s))"
  "closed_after_record (new_events s (transfer_file L Upload r e s))"
  by (simp_all add: recorded_after_transfer_def closed_after_record_def transfer_defs Let_def
        split: option.splits sum.splits)

lemma download_record_order:
  "recorded_after_transfer (new_events s (transfer_file L Download r e s))"
  "closed_after_record (new_events s (transfer_file L Download r e s))"
  by (simp_all add: recorded_after_transfer_def closed_after_record_def transfer_defs Let_def
        split: option.splits sum.splits)

text \<open>
  C3, as the source has it: in every attempt the history entry is appended after the last
  byte was transferred, and whenever the session is closed, the close follows the append.
\<close>

theorem record_follows_transfer_precedes_close:
  "recorded_after_transfer (new_events s (transfer_file L act r e s)) \<and>
   closed_after_record (new_events s (transfer_file L act r e s))"
  by (cases act) (simp_all only: upload_record_order download_record_order simp_thms)

theorem record_follows_transfer_precedes_close_witness:
  "recorded_after_transfer
     (new_events idle_app (transfer_file py_sample Upload [] working_env idle_app)) \<and>
   closed_after_record
     (new_events idle_app (transfer_file py_sample Upload [] working_env idle_app)) \<and>
   new_events idle_app (transfer_file py_sample Upload [] working_env idle_app) =
     [Status Connecting, TransportOpen ''h'', TransportConnect ''u'' ''p'', SftpOpen,
      GetSize ''/tmp/a.txt'', SftpPut ''/tmp/a.txt'' ''a.txt'', Progress 4 10, Progress 10 10,
      Status (Uploaded ''a.txt''),
      HistoryAppend \<lparr>entry_date = ''2024-01-01 10:00'', entry_type = ''upload'',
                      entry_file = ''a.txt'', entry_status = ''success''\<rparr>,
      HistoryFlush, ShowInfo Upload ''a.txt'', SftpClose, TransportClose]"
  using record_follows_transfer_precedes_close [of idle_app py_sample Upload "[]" working_env]
  by (simp add: transfer_defs input_defs Let_def)

subsection \<open>Declined save destination\<close>

lemma declined_history:
  assumes "server_entry s \<noteq> []" "username_entry s \<noteq> []" "password_entry s \<noteq> []"
    and "remote_file_entry s \<noteq> []" "save_path e = []"
    and "transport_result e = None" "connect_result e = None" "sftp_result e = None"
    and "write_error (history_file s) = None"
  shows "transfer_history (download_file L e s) =
           transfer_history s @ [\<lparr>entry_date = now e, entry_type = ''download'',
                                  entry_file = remote_file_entry s, entry_status = ''failed''\<rparr>]"
    and "history_file (download_file L e s) =
           (history_file s)\<lparr>content := Some (json_dump L (json_of_history
              (transfer_history s @ [\<lparr>entry_date = now e, entry_type = ''download'',
                 entry_file = remote_file_entry s, entry_status = ''failed''\<rparr>])))\<rparr>"
    and "new_events s (download_file L e s) =
           [Status Connecting, TransportOpen (server_entry s),
            TransportConnect (username_entry s) (password_entry s), SftpOpen,
            AskSaveAs (remote_file_entry s), Status Stopped,
            HistoryAppend \<lparr>entry_date = now e, entry_type = ''download'',
                            entry_file = remote_file_entry s, entry_status = ''failed''\<rparr>,
            HistoryFlush]"
  using assms by (simp_all add: transfer_defs Let_def)

lemma declined_no_transfer:
  "save_path e = [] \<Longrightarrow> filter is_byte_transfer (new_events s (download_file L e s)) = []"
  by (simp add: transfer_defs Let_def split: option.splits)

lemma declined_no_stat:
  "save_path e = [] \<Longrightarrow> filter is_stat (new_events s (download_file L e s)) = []"
  by (simp add: transfer_defs Let_def split: option.splits)

lemma declined_files:
  "save_path e = [] \<Longrightarrow> local_files (download_file L e s) = local_files s"
  by (simp add: transfer_defs Let_def split: option.splits)

text \<open>
  C1, as stated: a declined save destination records exactly one failed entry. Where the
  history file cannot be opened for writing, the exception of the first
  \<open>add_to_history\<close> is caught by the \<open>except\<close> block, which appends a second failed
  entry before its own \<open>add_to_history\<close> ends the thread: two entries in memory, none
  in the file.
\<close>

theorem declined_destination_recorded_twice:
  "transfer_history (download_file py_sample declining_env readonly_app) =
     [entry_d, entry_d] \<and>
   transfer_history (download_file py_sample declining_env readonly_app) \<noteq>
     transfer_history readonly_app @ [entry_d] \<and>
   content (history_file (download_file py_sample declining_env readonly_app)) = None \<and>
   new_events readonly_app (download_file py_sample declining_env readonly_app) =
     [Status Connecting, TransportOpen ''h'', TransportConnect ''u'' ''p'', SftpOpen,
      AskSaveAs ''missing.bin'', Status Stopped, HistoryAppend entry_d,
      ShowError (TransferFailed Download OSError), Status Blank, HistoryAppend entry_d,
      Uncaught OSError]"
  by (simp add: transfer_defs input_defs entry_d_def Let_def)

text \<open>
  C1, as the source has it. A download whose save dialog is cancelled asks the server for
  nothing more, whatever the state of the history file: no \<open>sftp.stat\<close>, no
  \<open>sftp.get\<close>, no progress sample, no local file. The dialog is shown when the request
  is valid and the session is open; where the history file can then be written, the
  attempt appends exactly one entry, a failed download of the given remote name, and
  flushes it.
\<close>

theorem declined_destination_recorded_once:
  "(save_path e = [] \<longrightarrow>
      filter is_byte_transfer (new_events s (download_file L e s)) = [] \<and>
      filter is_stat (new_events s (download_file L e s)) = [] \<and>
      local_files (download_file L e s) = local_files s) \<and>
   (server_entry s \<noteq> [] \<and> username_entry s \<noteq> [] \<and> password_entry s \<noteq> [] \<and>
    remote_file_entry s \<noteq> [] \<and> transport_result e = None \<and> connect_result e = None \<and>
    sftp_result e = None \<and> save_path e = [] \<and> write_error (history_file s) = None \<longrightarrow>
      transfer_history (download_file L e s) =
        transfer_history s @ [\<lparr>entry_date = now e, entry_type = ''download'',
                               entry_file = remote_file_entry s, entry_status = ''failed''\<rparr>] \<and>
      history_file (download_file L e s) =
        (history_file s)\<lparr>content := Some (json_dump L (json_of_history
           (transfer_history (download_file L e s))))\<rparr> \<and>
      new_events s (download_file L e s) =
        [Status Connecting, TransportOpen (server_entry s),
         TransportConnect (username_entry s) (password_entry s), SftpOpen,
         AskSaveAs (remote_file_entry s), Status Stopped,
         HistoryAppend \<lparr>entry_date = now e, entry_type = ''download'',
                         entry_file = remote_file_entry s, entry_status = ''failed''\<rparr>,
         HistoryFlush])"
proof (intro conjI impI)
  assume "save_path e = []"
  then show "filter is_byte_transfer (new_events s (download_file L e s)) = []"
    and "filter is_stat (new_events s (download_file L e s)) = []"
    and "local_files (download_file L e s) = local_files s"
    by (simp_all add: declined_no_transfer declined_no_stat declined_files)
next
  assume ready: "server_entry s \<noteq> [] \<and> username_entry s \<noteq> [] \<and> password_entry s \<noteq> [] \<and>
    remote_file_entry s \<noteq> [] \<and> transport_result e = None \<and> connect_result e = None \<and>
    sftp_result e = None \<and> save_path e = [] \<and> write_error (history_file s) = None"
  then show "transfer_history (download_file L e s) =
        transfer_history s @ [\<lparr>entry_date = now e, entry_type = ''download'',
                               entry_file = remote_file_entry s, entry_status = ''failed''\<rparr>]"
    by (simp add: declined_history)
  from ready show "history_file (download_file L e s) =
        (history_file s)\<lparr>content := Some (json_dump L (json_of_history
           (transfer_history (download_file L e s))))\<rparr>"
    by (simp add: declined_history)
  from ready show "new_events s (download_file L e s) =
        [Status Connecting, TransportOpen (server_entry s),
         TransportConnect (username_entry s) (password_entry s), SftpOpen,
         AskSaveAs (remote_file_entry s), Status Stopped,
         HistoryAppend \<lparr>entry_date = now e, entry_type = ''download'',
                         entry_file = remote_file_entry s, entry_status = ''failed''\<rparr>,
         HistoryFlush]"
    by (simp add: declined_history)
qed

theorem declined_destination_recorded_once_witness:
  "server_entry idle_app \<noteq> [] \<and> username_entry idle_app \<noteq> [] \<and> password_entry idle_app \<noteq> [] \<and>
   remote_file_entry idle_app \<noteq> [] \<and>
   transport_result declining_env = None \<and> connect_result declining_env = None \<and>
   sftp_result declining_env = None \<and> save_path declining_env = [] \<and>
   write_error (history_file idle_app) = None \<and>
   transfer_history (download_file py_sample declining_env idle_app) = [entry_d] \<and>
   content (history_file (download_file py_sample declining_env idle_app)) = Some text_one \<and>
   filter is_byte_transfer
     (new_events idle_app (download_file py_sample declining_env idle_app)) = []"
  using declined_destination_recorded_once [of declining_env idle_app py_sample]
  by (simp add: idle_app_def declining_env_def working_env_def entry_d_def
        sample_dump_simps [unfolded entry_d_def])

subsection \<open>Download: size first\<close>

lemma download_stat_first:
  "stat_before_stream (new_events s (download_file L e s))"
  by (simp add: stat_before_stream_def transfer_defs Let_def split: option.splits sum.splits)

lemma stat_failure_no_file:
  "stat_result e = Inl err \<Longrightarrow> local_files (download_file L e s) = local_files s"
  by (simp add: transfer_defs Let_def split: option.splits)

lemma stat_failure_no_stream:
  "stat_result e = Inl err \<Longrightarrow>
   filter is_byte_transfer (new_events s (download_file L e s)) = []"
  by (simp add: transfer_defs Let_def split: option.splits)

lemma stat_failure_events:
  assumes "server_entry s \<noteq> []" "username_entry s \<noteq> []" "password_entry s \<noteq> []"
    and "remote_file_entry s \<noteq> []"
    and "transport_result e = None" "connect_result e = None" "sftp_result e = None"
    and "save_path e \<noteq> []" "stat_result e = Inl err"
  shows "new_events s (download_file L e s) =
     [Status Connecting, TransportOpen (server_entry s),
      TransportConnect (username_entry s) (password_entry s), SftpOpen,
      AskSaveAs (remote_file_entry s), SftpStat (remote_file_entry s),
      ShowError (TransferFailed Download err), Status Blank,
      HistoryAppend \<lparr>entry_date = now e, entry_type = ''download'',
                      entry_file = remote_file_entry s, entry_status = ''failed''\<rparr>] @
     record_end s"
  using assms by (simp add: transfer_defs record_end_def Let_def split: option.splits)

text \<open>
  C5. A download asks for the remote file's size before any byte is streamed. When
  \<open>sftp.stat\<close> raises, no byte is streamed and no local file is created; on a valid
  request with an open session and a chosen destination the attempt ends right after the
  \<open>sftp.stat\<close> call with the error dialog for that exception and a failed entry, which
  is flushed or, where the history file cannot be written, ends the thread.
\<close>

theorem download_size_before_stream:
  "stat_before_stream (new_events s (download_file L e s)) \<and>
   (stat_result e = Inl err \<longrightarrow>
      local_files (download_file L e s) = local_files s \<and>
      filter is_byte_transfer (new_events s (download_file L e s)) = []) \<and>
   (server_entry s \<noteq> [] \<and> username_entry s \<noteq> [] \<and> password_entry s \<noteq> [] \<and>
    remote_file_entry s \<noteq> [] \<and> transport_result e = None \<and> connect_result e = None \<and>
    sftp_result e = None \<and> save_path e \<noteq> [] \<and> stat_result e = Inl err \<longrightarrow>
      new_events s (download_file L e s) =
        [Status Connecting, TransportOpen (server_entry s),
         TransportConnect (username_entry s) (password_entry s), SftpOpen,
         AskSaveAs (remote_file_entry s), SftpStat (remote_file_entry s),
         ShowError (TransferFailed Download err), Status Blank,
         HistoryAppend \<lparr>entry_date = now e, entry_type = ''download'',
                         entry_file = remote_file_entry s, entry_status = ''failed''\<rparr>] @
        record_end s)"
proof (intro conjI impI)
  show "stat_before_stream (new_events s (download_file L e s))"
    by (rule download_stat_first)
next
  assume "stat_result e = Inl err"
  then show "local_files (download_file L e s) = local_files s"
    by (rule stat_failure_no_file)
next
  assume "stat_result e = Inl err"
  then show "filter is_byte_transfer (new_events s (download_file L e s)) = []"
    by (rule stat_failure_no_stream)
next
  assume "server_entry s \<noteq> [] \<and> username_entry s \<noteq> [] \<and> password_entry s \<noteq> [] \<and>
    remote_file_entry s \<noteq> [] \<and> transport_result e = None \<and> connect_result e = None \<and>
    sftp_result e = None \<and> save_path e \<noteq> [] \<and> stat_result e = Inl err"
  then show "new_events s (download_file L e s) =
        [Status Connecting, TransportOpen (server_entry s),
         TransportConnect (username_entry s) (password_entry s), SftpOpen,
         AskSaveAs (remote_file_entry s), SftpStat (remote_file_entry s),
         ShowError (TransferFailed Download err), Status Blank,
         HistoryAppend \<lparr>entry_date = now e, entry_type = ''download'',
                         entry_file = remote_file_entry s, entry_status = ''failed''\<rparr>] @
        record_end s"
    by (simp add: stat_failure_events)
qed

theorem download_size_before_stream_witness:
  "stat_result absent_env = Inl FileNotFoundError \<and>
   local_files (download_file py_sample absent_env idle_app) = [] \<and>
   new_events idle_app (download_file py_sample absent_env idle_app) =
     [Status Connecting, TransportOpen ''h'', TransportConnect ''u'' ''p'', SftpOpen,
      AskSaveAs ''missing.bin'', SftpStat ''missing.bin'',
      ShowError (TransferFailed Download FileNotFoundError), Status Blank,
      HistoryAppend \<lparr>entry_date = ''2024-01-01 10:00'', entry_type = ''download'',
                      entry_file = ''missing.bin'', entry_status = ''failed''\<rparr>,
      HistoryFlush] \<and>
   stat_before_stream (new_events idle_app (download_file py_sample working_env idle_app)) \<and>
   new_events idle_app (download_file py_sample working_env idle_app) =
     [Status Connecting, TransportOpen ''h'', TransportConnect ''u'' ''p'', SftpOpen,
      AskSaveAs ''missing.bin'', SftpStat ''missing.bin'',
      SftpGet ''missing.bin'' ''/home/u/a.bin'', Progress 4 10, Progress 10 10,
      Status (Saved ''/home/u/a.bin''),
      HistoryAppend \<lparr>entry_date = ''2024-01-01 10:00'', entry_type = ''download'',
                      entry_file = ''missing.bin'', entry_status = ''success''\<rparr>,
      HistoryFlush, ShowInfo Download ''missing.bin'', SftpClose, TransportClose]"
proof -
  have absent: "stat_result absent_env = Inl FileNotFoundError"
    by (simp add: absent_env_def working_env_def)
  have ready: "server_entry idle_app \<noteq> [] \<and> username_entry idle_app \<noteq> [] \<and>
      password_entry idle_app \<noteq> [] \<and> remote_file_entry idle_app \<noteq> [] \<and>
      transport_result absent_env = None \<and> connect_result absent_env = None \<and>
      sftp_result absent_env = None \<and> save_path absent_env \<noteq> []"
    by (simp add: idle_app_def absent_env_def working_env_def)
  have writable: "record_end idle_app = [HistoryFlush]"
    by (simp add: record_end_def idle_app_def)
  have present: "new_events idle_app (download_file py_sample working_env idle_app) =
     [Status Connecting, TransportOpen ''h'', TransportConnect ''u'' ''p'', SftpOpen,
      AskSaveAs ''missing.bin'', SftpStat ''missing.bin'',
      SftpGet ''missing.bin'' ''/home/u/a.bin'', Progress 4 10, Progress 10 10,
      Status (Saved ''/home/u/a.bin''),
      HistoryAppend \<lparr>entry_date = ''2024-01-01 10:00'', entry_type = ''download'',
                      entry_file = ''missing.bin'', entry_status = ''success''\<rparr>,
      HistoryFlush, ShowInfo Download ''missing.bin'', SftpClose, TransportClose]"
    by (simp add: transfer_defs input_defs Let_def)
  from download_size_before_stream [of idle_app py_sample absent_env FileNotFoundError]
    download_size_before_stream [of idle_app py_sample working_env FileNotFoundError]
    absent ready writable present
  show ?thesis
    by (simp add: idle_app_def absent_env_def working_env_def)
qed

end
